theory Spec2Isabelle
  imports Main
begin

section \<open>The type handlers of jsonpickle (jsonpickle/handlers.py)\<close>

text \<open>
  The module holds a registry from classes to handler classes, the abstract handler
  \<^verbatim>\<open>BaseHandler\<close>, and two concrete handlers: \<^verbatim>\<open>DatetimeHandler\<close> and
  \<^verbatim>\<open>SimpleReduceHandler\<close>. A handler is bound to a context (the pickler when it
  flattens, the unpickler when it restores) and calls back into it for nested values.
  The context and the Python runtime (what \<^verbatim>\<open>obj.__reduce__()\<close> returns, how a class
  is instantiated) are not part of the module: they are parameters of the model.
\<close>

subsection \<open>Python values\<close>

text \<open>
  A class object has a qualified name and its direct base classes. Values are the
  JSON-compatible ones (null, booleans, integers, text, lists, dictionaries with
  string keys), byte strings, tuples, class objects and instances; an instance is its
  class together with a state. Floating point numbers play no role in the module and
  are left out. A byte of a byte string is a \<^typ>\<open>char\<close>; a dictionary is an
  association list in insertion order.
\<close>

datatype pytype = PyType (type_name: string) (bases: "pytype list")

datatype pyval =
    PNone
  | PBool bool
  | PInt int
  | PStr string
  | PBytes string
  | PList "pyval list"
  | PTuple "pyval list"
  | PDict "(string \<times> pyval) list"
  | PClass pytype
  | PObj pytype pyval

text \<open>The exceptions that the module and the operations it uses can raise.\<close>

datatype error =
    NotImplementedError string
  | KeyError string
  | IndexError
  | TypeError
  | ValueError
  | Base64Error
  | Raised string

text \<open>
  A statement that may raise is a value of \<^typ>\<open>error + 'a\<close>; \<open>bind_err\<close> runs the
  rest of the function body on a normal result and propagates an exception.
  \<open>map_err\<close> is a list comprehension \<^verbatim>\<open>[f(i) for i in xs]\<close>: left to right, stopping at
  the first exception.
\<close>

definition bind_err :: "error + 'a \<Rightarrow> ('a \<Rightarrow> error + 'b) \<Rightarrow> error + 'b" where
  "bind_err m f = (case m of Inl e \<Rightarrow> Inl e | Inr x \<Rightarrow> f x)"

fun map_err :: "('a \<Rightarrow> error + 'b) \<Rightarrow> 'a list \<Rightarrow> error + 'b list" where
  "map_err f [] = Inr []"
| "map_err f (x # xs) =
     bind_err (f x) (\<lambda>y. bind_err (map_err f xs) (\<lambda>ys. Inr (y # ys)))"

subsection \<open>The operations of the language that the handlers use\<close>

text \<open>
  Iteration (\<^verbatim>\<open>for i in x\<close>, and the unpacking of \<^verbatim>\<open>a, b = x\<close> and \<^verbatim>\<open>f(*x)\<close>),
  \<^verbatim>\<open>x[0]\<close>, \<^verbatim>\<open>x[1:]\<close>, \<^verbatim>\<open>x[key]\<close> and \<^verbatim>\<open>x[key] = v\<close> with a string key. Where
  Python 2 and Python 3 differ (the items of a byte string) the model follows
  Python 3. Instances and class objects are taken to define none of these protocols.
\<close>

fun iterate :: "pyval \<Rightarrow> error + pyval list" where
  "iterate (PList xs) = Inr xs"
| "iterate (PTuple xs) = Inr xs"
| "iterate (PStr s) = Inr (map (\<lambda>c. PStr [c]) s)"
| "iterate (PBytes s) = Inr (map (\<lambda>c. PInt (of_char c)) s)"
| "iterate (PDict kvs) = Inr (map (\<lambda>kv. PStr (fst kv)) kvs)"
| "iterate _ = Inl TypeError"

text \<open>\<^verbatim>\<open>a, b = x\<close>: exactly two items, otherwise \<^verbatim>\<open>ValueError\<close>.\<close>

definition unpack2 :: "pyval \<Rightarrow> error + pyval \<times> pyval" where
  "unpack2 x =
     bind_err (iterate x)
       (\<lambda>xs. case xs of [a, b] \<Rightarrow> Inr (a, b) | _ \<Rightarrow> Inl ValueError)"

fun index0 :: "pyval \<Rightarrow> error + pyval" where
  "index0 (PList xs) = (case xs of [] \<Rightarrow> Inl IndexError | x # _ \<Rightarrow> Inr x)"
| "index0 (PTuple xs) = (case xs of [] \<Rightarrow> Inl IndexError | x # _ \<Rightarrow> Inr x)"
| "index0 (PStr s) = (case s of [] \<Rightarrow> Inl IndexError | c # _ \<Rightarrow> Inr (PStr [c]))"
| "index0 (PBytes s) = (case s of [] \<Rightarrow> Inl IndexError | c # _ \<Rightarrow> Inr (PInt (of_char c)))"
| "index0 (PDict kvs) = Inl (KeyError ''0'')"
| "index0 _ = Inl TypeError"

fun slice1 :: "pyval \<Rightarrow> error + pyval" where
  "slice1 (PList xs) = Inr (PList (drop 1 xs))"
| "slice1 (PTuple xs) = Inr (PTuple (drop 1 xs))"
| "slice1 (PStr s) = Inr (PStr (drop 1 s))"
| "slice1 (PBytes s) = Inr (PBytes (drop 1 s))"
| "slice1 _ = Inl TypeError"

fun getitem :: "pyval \<Rightarrow> string \<Rightarrow> error + pyval" where
  "getitem (PDict kvs) k = (case map_of kvs k of None \<Rightarrow> Inl (KeyError k) | Some v \<Rightarrow> Inr v)"
| "getitem _ k = Inl TypeError"

text \<open>
  \<^verbatim>\<open>x[key] = v\<close> replaces the value of a key that is present and appends the key
  otherwise. The dictionary is mutated in place; the model returns its new state.
\<close>

fun update_item :: "string \<Rightarrow> pyval \<Rightarrow> (string \<times> pyval) list \<Rightarrow> (string \<times> pyval) list" where
  "update_item k v [] = [(k, v)]"
| "update_item k v (p # ps) = (if fst p = k then (k, v) # ps else p # update_item k v ps)"

fun setitem :: "pyval \<Rightarrow> string \<Rightarrow> pyval \<Rightarrow> error + pyval" where
  "setitem (PDict kvs) k v = Inr (PDict (update_item k v kvs))"
| "setitem _ k v = Inl TypeError"

subsection \<open>Base64\<close>

text \<open>
  Modelled from the spec: \<^verbatim>\<open>base64.b64encode\<close> and \<^verbatim>\<open>base64.b64decode\<close> of the
  standard library, which the module imports; the spec calls them the standard base64
  text encoding and decoding. Three bytes become four characters of the alphabet, and
  a last group of one or two bytes is padded with \<^verbatim>\<open>=\<close>. The decoder takes groups of
  four characters of the alphabet, with padding in the last group only, and raises on
  any other input.
\<close>

definition b64_alphabet :: string where
  "b64_alphabet = ''ABCDEFGHIJKLMNOPQRSTUVWXYZabcdefghijklmnopqrstuvwxyz0123456789+/''"

definition b64_char :: "nat \<Rightarrow> char" where
  "b64_char n = b64_alphabet ! n"

fun index_of :: "'a \<Rightarrow> 'a list \<Rightarrow> nat option" where
  "index_of x [] = None"
| "index_of x (y # ys) = (if x = y then Some 0 else map_option Suc (index_of x ys))"

definition b64_index :: "char \<Rightarrow> nat option" where
  "b64_index c = index_of c b64_alphabet"

fun b64encode :: "string \<Rightarrow> string" where
  "b64encode [] = []"
| "b64encode [a] =
     (let x = (of_char a :: nat)
      in [b64_char (x div 4), b64_char (x mod 4 * 16), CHR ''='', CHR ''=''])"
| "b64encode [a, b] =
     (let x = (of_char a :: nat); y = (of_char b :: nat)
      in [b64_char (x div 4), b64_char (x mod 4 * 16 + y div 16),
          b64_char (y mod 16 * 4), CHR ''=''])"
| "b64encode (a # b # c # r) =
     (let x = (of_char a :: nat); y = (of_char b :: nat); z = (of_char c :: nat)
      in b64_char (x div 4) # b64_char (x mod 4 * 16 + y div 16) #
         b64_char (y mod 16 * 4 + z div 64) # b64_char (z mod 64) # b64encode r)"

fun b64decode :: "string \<Rightarrow> error + string" where
  "b64decode [] = Inr []"
| "b64decode (a # b # c # d # r) =
     (case (b64_index a, b64_index b) of
        (Some p, Some q) \<Rightarrow>
          if c = CHR ''='' then
            (if d = CHR ''='' \<and> r = [] then Inr [char_of (p * 4 + q div 16)]
             else Inl Base64Error)
          else
            (case b64_index c of
               None \<Rightarrow> Inl Base64Error
             | Some s \<Rightarrow>
                 if d = CHR ''='' then
                   (if r = []
                    then Inr [char_of (p * 4 + q div 16), char_of (q mod 16 * 16 + s div 4)]
                    else Inl Base64Error)
                 else
                   (case b64_index d of
                      None \<Rightarrow> Inl Base64Error
                    | Some t \<Rightarrow>
                        bind_err (b64decode r)
                          (\<lambda>bs. Inr (char_of (p * 4 + q div 16) #
                                     char_of (q mod 16 * 16 + s div 4) #
                                     char_of (s mod 4 * 64 + t) # bs))))
      | _ \<Rightarrow> Inl Base64Error)"
| "b64decode _ = Inl Base64Error"

text \<open>
  On values: the encoder needs a byte string; the decoder takes a byte string or, as
  after a trip through a JSON document, text.
\<close>

fun py_b64encode :: "pyval \<Rightarrow> error + pyval" where
  "py_b64encode (PBytes s) = Inr (PBytes (b64encode s))"
| "py_b64encode _ = Inl TypeError"

fun py_b64decode :: "pyval \<Rightarrow> error + pyval" where
  "py_b64decode (PBytes s) = bind_err (b64decode s) (\<lambda>bs. Inr (PBytes bs))"
| "py_b64decode (PStr s) = bind_err (b64decode s) (\<lambda>bs. Inr (PBytes bs))"
| "py_b64decode _ = Inl TypeError"

subsection \<open>The registry\<close>

text \<open>
  \<^verbatim>\<open>Registry._handlers\<close> is a dictionary keyed by class objects. \<^verbatim>\<open>register\<close>
  assigns to a key; \<^verbatim>\<open>get\<close> is \<^verbatim>\<open>dict.get\<close>, which returns \<^verbatim>\<open>None\<close> for a key that
  is not there. The registry is mutated in place; the model returns its new state.
\<close>

record 'h Registry =
  handlers :: "pytype \<Rightarrow> 'h option"

definition Registry_init :: "'h Registry" where
  "Registry_init = \<lparr>handlers = Map.empty\<rparr>"

definition register :: "'h Registry \<Rightarrow> pytype \<Rightarrow> 'h \<Rightarrow> 'h Registry" where
  "register self cls handler = self\<lparr>handlers := (handlers self)(cls \<mapsto> handler)\<rparr>"

definition get :: "'h Registry \<Rightarrow> pytype \<Rightarrow> 'h option" where
  "get self cls = handlers self cls"

text \<open>A sequence of calls of \<^verbatim>\<open>register\<close>, in order.\<close>

fun register_all :: "'h Registry \<Rightarrow> (pytype \<times> 'h) list \<Rightarrow> 'h Registry" where
  "register_all self [] = self"
| "register_all self (p # ps) = register_all (register self (fst p) (snd p)) ps"

text \<open>\<^verbatim>\<open>issubclass(S, T)\<close>: \<open>T\<close> is \<open>S\<close> or is reached from \<open>S\<close> through base classes.\<close>

fun issubclass :: "pytype \<Rightarrow> pytype \<Rightarrow> bool" where
  "issubclass (PyType n bs) T = (PyType n bs = T \<or> list_ex (\<lambda>b. issubclass b T) bs)"

subsection \<open>The handlers\<close>

text \<open>
  The context: the flag \<^verbatim>\<open>unpicklable\<close> and the entry points \<^verbatim>\<open>flatten\<close> and
  \<^verbatim>\<open>restore\<close>, each with its keyword argument \<^verbatim>\<open>reset\<close>. The runtime: the method
  \<^verbatim>\<open>__reduce__\<close> of a value, \<^verbatim>\<open>cls.__new__(cls, *params)\<close> and the call
  \<^verbatim>\<open>factory(*args)\<close>.
\<close>

record Context =
  unpicklable :: bool
  flatten :: "pyval \<Rightarrow> bool \<Rightarrow> error + pyval"
  restore :: "pyval \<Rightarrow> bool \<Rightarrow> error + pyval"

text \<open>
  Modelled from the spec: \<^verbatim>\<open>unicode\<close> of \<^verbatim>\<open>jsonpickle.compat\<close>, which is not part
  of the module; the spec calls it the value's default string conversion. It is a
  field of the runtime, and like any conversion defined by a class it may raise.
\<close>

record runtime =
  reduce :: "pyval \<Rightarrow> error + pyval"
  unicode :: "pyval \<Rightarrow> error + string"
  new :: "pyval \<Rightarrow> pyval list \<Rightarrow> error + pyval"
  call :: "pyval \<Rightarrow> pyval list \<Rightarrow> error + pyval"

definition marker :: string where
  "marker = ''__reduce__''"

datatype handler = BaseHandler | DatetimeHandler | SimpleReduceHandler

text \<open>
  \<^verbatim>\<open>flatten(self, obj, data)\<close> returns a pair: what the call returns or raises, and
  the state of the dictionary \<open>data\<close> after the call. The only statement that writes
  to \<open>data\<close> is the assignment under the marker key; the value returned is then
  \<open>data\<close> itself.
\<close>

definition BaseHandler_flatten :: "string \<Rightarrow> pyval \<Rightarrow> pyval \<Rightarrow> (error + pyval) \<times> pyval" where
  "BaseHandler_flatten self_class obj data =
     (Inl (NotImplementedError (''You must implement flatten() in '' @ self_class)), data)"

definition BaseHandler_restore :: "string \<Rightarrow> pyval \<Rightarrow> error + pyval" where
  "BaseHandler_restore self_class obj =
     Inl (NotImplementedError (''You must implement restore() in '' @ self_class))"

definition DatetimeHandler_flatten ::
  "runtime \<Rightarrow> Context \<Rightarrow> pyval \<Rightarrow> pyval \<Rightarrow> (error + pyval) \<times> pyval" where
  "DatetimeHandler_flatten rt pickler obj data =
     (if \<not> unpicklable pickler then (bind_err (unicode rt obj) (\<lambda>s. Inr (PStr s)), data)
      else
        (case
           bind_err (reduce rt obj) (\<lambda>r.
           bind_err (unpack2 r) (\<lambda>(cls, args).
           bind_err (index0 args) (\<lambda>a0.
           bind_err (py_b64encode a0) (\<lambda>enc.
           bind_err (slice1 args) (\<lambda>rest.
           bind_err (iterate rest) (\<lambda>rs.
           bind_err (map_err (\<lambda>i. flatten pickler i False) rs) (\<lambda>frs.
           bind_err (flatten pickler cls False) (\<lambda>fcls.
           setitem data marker (PTuple [fcls, PList (enc # frs)])))))))))
         of Inl e \<Rightarrow> (Inl e, data)
          | Inr data' \<Rightarrow> (Inr data', data')))"

definition DatetimeHandler_restore :: "runtime \<Rightarrow> Context \<Rightarrow> pyval \<Rightarrow> error + pyval" where
  "DatetimeHandler_restore rt unpickler obj =
     bind_err (getitem obj marker) (\<lambda>m.
     bind_err (unpack2 m) (\<lambda>(cls, args).
     bind_err (index0 args) (\<lambda>a0.
     bind_err (py_b64decode a0) (\<lambda>val.
     bind_err (restore unpickler cls False) (\<lambda>cls'.
     bind_err (slice1 args) (\<lambda>rest.
     bind_err (iterate rest) (\<lambda>rs.
     bind_err (map_err (\<lambda>i. restore unpickler i False) rs) (\<lambda>params.
     new rt cls' (val # params)))))))))"

definition SimpleReduceHandler_flatten ::
  "runtime \<Rightarrow> Context \<Rightarrow> pyval \<Rightarrow> pyval \<Rightarrow> (error + pyval) \<times> pyval" where
  "SimpleReduceHandler_flatten rt pickler obj data =
     (if \<not> unpicklable pickler then (bind_err (unicode rt obj) (\<lambda>s. Inr (PStr s)), data)
      else
        (case
           bind_err (reduce rt obj) (\<lambda>r.
           bind_err (iterate r) (\<lambda>xs.
           bind_err (map_err (\<lambda>i. flatten pickler i False) xs) (\<lambda>fs.
           setitem data marker (PList fs))))
         of Inl e \<Rightarrow> (Inl e, data)
          | Inr data' \<Rightarrow> (Inr data', data')))"

definition SimpleReduceHandler_restore :: "runtime \<Rightarrow> Context \<Rightarrow> pyval \<Rightarrow> error + pyval" where
  "SimpleReduceHandler_restore rt unpickler obj =
     bind_err (getitem obj marker) (\<lambda>m.
     bind_err (iterate m) (\<lambda>xs.
     bind_err (map_err (\<lambda>i. restore unpickler i False) xs) (\<lambda>ys.
       case ys of
         [factory, args] \<Rightarrow> bind_err (iterate args) (\<lambda>as. call rt factory as)
       | _ \<Rightarrow> Inl ValueError)))"

text \<open>
  Method lookup on a handler class: the two concrete handlers override both methods
  of \<^verbatim>\<open>BaseHandler\<close>. The text of a class in the message of \<^verbatim>\<open>BaseHandler\<close> is
  given by \<open>class_text\<close>.
\<close>

definition class_text :: "handler \<Rightarrow> string" where
  "class_text h =
     (case h of
        BaseHandler \<Rightarrow> ''<class 'jsonpickle.handlers.BaseHandler'>''
      | DatetimeHandler \<Rightarrow> ''<class 'jsonpickle.handlers.DatetimeHandler'>''
      | SimpleReduceHandler \<Rightarrow> ''<class 'jsonpickle.handlers.SimpleReduceHandler'>'')"

definition handler_flatten ::
  "handler \<Rightarrow> runtime \<Rightarrow> Context \<Rightarrow> pyval \<Rightarrow> pyval \<Rightarrow> (error + pyval) \<times> pyval" where
  "handler_flatten h rt ctx obj data =
     (case h of
        BaseHandler \<Rightarrow> BaseHandler_flatten (class_text h) obj data
      | DatetimeHandler \<Rightarrow> DatetimeHandler_flatten rt ctx obj data
      | SimpleReduceHandler \<Rightarrow> SimpleReduceHandler_flatten rt ctx obj data)"

definition handler_restore :: "handler \<Rightarrow> runtime \<Rightarrow> Context \<Rightarrow> pyval \<Rightarrow> error + pyval" where
  "handler_restore h rt ctx obj =
     (case h of
        BaseHandler \<Rightarrow> BaseHandler_restore (class_text h) obj
      | DatetimeHandler \<Rightarrow> DatetimeHandler_restore rt ctx obj
      | SimpleReduceHandler \<Rightarrow> SimpleReduceHandler_restore rt ctx obj)"

subsection \<open>The default registrations\<close>

definition object_t :: pytype where
  "object_t = PyType ''object'' []"

definition datetime_date :: pytype where
  "datetime_date = PyType ''datetime.date'' [object_t]"

definition datetime_datetime :: pytype where
  "datetime_datetime = PyType ''datetime.datetime'' [datetime_date]"

definition datetime_time :: pytype where
  "datetime_time = PyType ''datetime.time'' [object_t]"

definition datetime_timedelta :: pytype where
  "datetime_timedelta = PyType ''datetime.timedelta'' [object_t]"

definition time_struct_time :: pytype where
  "time_struct_time = PyType ''time.struct_time'' [PyType ''tuple'' [object_t]]"

definition collections_OrderedDict :: pytype where
  "collections_OrderedDict = PyType ''collections.OrderedDict'' [PyType ''dict'' [object_t]]"

text \<open>
  The module registers its handlers when it is loaded; \<^verbatim>\<open>OrderedDict\<close> only when
  \<^verbatim>\<open>sys.version_info >= (2, 7)\<close>. The argument is the major and minor version.
\<close>

definition registry :: "nat \<times> nat \<Rightarrow> handler Registry" where
  "registry version_info =
     (let r = Registry_init;
          r = register r datetime_datetime DatetimeHandler;
          r = register r datetime_date DatetimeHandler;
          r = register r datetime_time DatetimeHandler;
          r = register r time_struct_time SimpleReduceHandler;
          r = register r datetime_timedelta SimpleReduceHandler
      in if fst version_info > 2 \<or> (fst version_info = 2 \<and> snd version_info \<ge> 7)
         then register r collections_OrderedDict SimpleReduceHandler
         else r)"

subsection \<open>The marker in a value\<close>

text \<open>
  \<open>has_marker\<close>: the value is a dictionary with the marker key, which is what
  \<^verbatim>\<open>obj['__reduce__']\<close> needs. \<open>contains_marker\<close>: the marker key occurs in the value
  at any depth.
\<close>

fun has_marker :: "pyval \<Rightarrow> bool" where
  "has_marker (PDict kvs) = (marker \<in> fst ` set kvs)"
| "has_marker _ = False"

fun contains_marker :: "pyval \<Rightarrow> bool" where
  "contains_marker (PList xs) = list_ex contains_marker xs"
| "contains_marker (PTuple xs) = list_ex contains_marker xs"
| "contains_marker (PDict kvs) =
     (list_ex (\<lambda>p. fst p = marker) kvs \<or> list_ex (\<lambda>p. contains_marker (snd p)) kvs)"
| "contains_marker (PObj t st) = contains_marker st"
| "contains_marker _ = False"

subsection \<open>A context, a runtime and two values for the examples\<close>

text \<open>
  A context whose entry points pass every value through unchanged, and a runtime in
  which the state of an instance is the tuple of the components that follow the
  factory in its decomposition: \<^verbatim>\<open>__reduce__\<close> returns the class and these
  components, and instantiating a class with arguments gives the instance whose
  decomposition is the class and the tuple of the arguments. The string conversion of
  an instance is the name of its class.
\<close>

definition plain_context :: "bool \<Rightarrow> Context" where
  "plain_context u =
     \<lparr>unpicklable = u, flatten = (\<lambda>v reset. Inr v), restore = (\<lambda>v reset. Inr v)\<rparr>"

definition example_runtime :: runtime where
  "example_runtime =
     \<lparr>reduce = (\<lambda>v. case v of PObj t (PTuple comps) \<Rightarrow> Inr (PTuple (PClass t # comps))
                         | _ \<Rightarrow> Inl TypeError),
      unicode = (\<lambda>v. case v of PObj t st \<Rightarrow> Inr (type_name t) | _ \<Rightarrow> Inl TypeError),
      new = (\<lambda>c ps. case c of PClass t \<Rightarrow> Inr (PObj t (PTuple [PTuple ps]))
                           | _ \<Rightarrow> Inl TypeError),
      call = (\<lambda>c ps. case c of PClass t \<Rightarrow> Inr (PObj t (PTuple [PTuple ps]))
                            | _ \<Rightarrow> Inl TypeError)\<rparr>"

text \<open>
  A \<^verbatim>\<open>datetime\<close> whose decomposition is the class and one byte string, here with
  null bytes and a byte above 127.
\<close>

definition a_datetime :: pyval where
  "a_datetime =
     PObj datetime_datetime
       (PTuple [PTuple [PBytes [CHR 0x07, CHR 0xE7, CHR 0x00, CHR 0x01, CHR 0x01, CHR 0x00,
                                CHR 0x00, CHR 0x00, CHR 0x00, CHR 0xFF]]])"

text \<open>
  An \<^verbatim>\<open>OrderedDict\<close> with the item \<^verbatim>\<open>('a', 1)\<close> on which the attribute \<^verbatim>\<open>x = 5\<close>
  was set. In Python 2.7 \<^verbatim>\<open>OrderedDict.__reduce__\<close> returns three components for
  such an instance: the class, the tuple holding the list of items, and the dictionary
  of the instance's attributes. (In Python 3 it returns five components for every
  instance.) The second definition is that value flattened.
\<close>

definition an_OrderedDict :: pyval where
  "an_OrderedDict =
     PObj collections_OrderedDict
       (PTuple [PTuple [PList [PList [PStr ''a'', PInt 1]]], PDict [(''x'', PInt 5)]])"

definition an_OrderedDict_flat :: pyval where
  "an_OrderedDict_flat =
     PDict [(marker, PList [PClass collections_OrderedDict,
                            PTuple [PList [PList [PStr ''a'', PInt 1]]],
                            PDict [(''x'', PInt 5)]])]"

subsection \<open>A value whose string conversion raises\<close>

text \<open>
  The string conversion of an \<^verbatim>\<open>OrderedDict\<close> converts its items, so it raises when
  an item is an instance of a class whose \<^verbatim>\<open>__repr__\<close> raises. \<open>Unprintable\<close> is
  such a class, \<open>unprintable_runtime\<close> a runtime whose string conversion raises on
  every value that holds an instance of it, and \<open>an_unprintable_OrderedDict\<close> an
  \<^verbatim>\<open>OrderedDict\<close> with the item \<^verbatim>\<open>('a', Unprintable())\<close>.
\<close>

fun holds_instance_of :: "pytype \<Rightarrow> pyval \<Rightarrow> bool" where
  "holds_instance_of T (PList xs) = list_ex (holds_instance_of T) xs"
| "holds_instance_of T (PTuple xs) = list_ex (holds_instance_of T) xs"
| "holds_instance_of T (PDict kvs) = list_ex (\<lambda>p. holds_instance_of T (snd p)) kvs"
| "holds_instance_of T (PObj t st) = (t = T \<or> holds_instance_of T st)"
| "holds_instance_of T _ = False"

definition Unprintable :: pytype where
  "Unprintable = PyType ''Unprintable'' [object_t]"

definition unprintable_runtime :: runtime where
  "unprintable_runtime =
     example_runtime
       \<lparr>unicode := (\<lambda>v. if holds_instance_of Unprintable v then Inl (Raised ''__repr__'')
                        else unicode example_runtime v)\<rparr>"

definition an_unprintable_OrderedDict :: pyval where
  "an_unprintable_OrderedDict =
     PObj collections_OrderedDict
       (PTuple [PTuple [PList [PList [PStr ''a'', PObj Unprintable PNone]]]])"

subsection \<open>A context that tags classes and instances, a validating constructor\<close>

text \<open>
  A context that flattens a class to a dictionary with its name under \<^verbatim>\<open>py/type\<close>
  and an instance to a dictionary with the name of its class under \<^verbatim>\<open>py/object\<close>
  and its state under \<^verbatim>\<open>py/state\<close>, and restores both by looking the name up
  among the classes it knows; every other value passes unchanged.
\<close>

definition datetime_timezone :: pytype where
  "datetime_timezone = PyType ''datetime.timezone'' [PyType ''datetime.tzinfo'' [object_t]]"

definition known_types :: "pytype list" where
  "known_types = [datetime_datetime, datetime_date, datetime_time, datetime_timedelta,
     datetime_timezone, time_struct_time, collections_OrderedDict]"

definition type_named :: "string \<Rightarrow> error + pytype" where
  "type_named n =
     (case find (\<lambda>t. type_name t = n) known_types of
        None \<Rightarrow> Inl (Raised ''no such class'')
      | Some t \<Rightarrow> Inr t)"

fun tagged_flatten :: "pyval \<Rightarrow> error + pyval" where
  "tagged_flatten (PClass t) = Inr (PDict [(''py/type'', PStr (type_name t))])"
| "tagged_flatten (PObj t st) =
     Inr (PDict [(''py/object'', PStr (type_name t)), (''py/state'', st)])"
| "tagged_flatten v = Inr v"

fun tagged_restore :: "pyval \<Rightarrow> error + pyval" where
  "tagged_restore (PDict [(k, PStr n)]) =
     (if k = ''py/type'' then bind_err (type_named n) (\<lambda>t. Inr (PClass t))
      else Inr (PDict [(k, PStr n)]))"
| "tagged_restore (PDict [(k, PStr n), (k', st)]) =
     (if k = ''py/object'' \<and> k' = ''py/state''
      then bind_err (type_named n) (\<lambda>t. Inr (PObj t st))
      else Inr (PDict [(k, PStr n), (k', st)]))"
| "tagged_restore v = Inr v"

definition tagged_context :: "bool \<Rightarrow> Context" where
  "tagged_context u =
     \<lparr>unpicklable = u, flatten = (\<lambda>v reset. tagged_flatten v),
      restore = (\<lambda>v reset. tagged_restore v)\<rparr>"

text \<open>
  A runtime in which the call of a class validates its arguments and rejects a byte
  string as the first one, while \<^verbatim>\<open>cls.__new__\<close> takes it.
\<close>

definition validating_runtime :: runtime where
  "validating_runtime =
     example_runtime
       \<lparr>call := (\<lambda>c ps. case ps of PBytes s # _ \<Rightarrow> Inl TypeError
                               | _ \<Rightarrow> call example_runtime c ps)\<rparr>"

text \<open>
  A \<^verbatim>\<open>datetime\<close> with a time zone, whose decomposition is the class, the byte
  string and the time zone, and the dictionary that a JSON document of it decodes to:
  the marker holds lists, the payload is text.
\<close>

definition utc :: pyval where
  "utc = PObj datetime_timezone PNone"

definition a_datetime_utc :: pyval where
  "a_datetime_utc =
     PObj datetime_datetime
       (PTuple [PTuple [PBytes [CHR 0x07, CHR 0xE7, CHR 0x00, CHR 0x01, CHR 0x01, CHR 0x00,
                                CHR 0x00, CHR 0x00, CHR 0x00, CHR 0xFF], utc]])"

definition a_datetime_utc_document :: "(string \<times> pyval) list" where
  "a_datetime_utc_document =
     [(''py/object'', PStr ''datetime.datetime''),
      (marker, PList [PDict [(''py/type'', PStr ''datetime.datetime'')],
                      PList [PStr ''B+cAAQEAAAAA/w=='',
                             PDict [(''py/object'', PStr ''datetime.timezone''),
                                    (''py/state'', PNone)]]])]"

section \<open>Properties\<close>

subsection \<open>Exceptions, dictionaries\<close>

lemma bind_err_simps:
  "bind_err (Inl e) f = Inl e" "bind_err (Inr x) f = f x"
  by (simp_all add: bind_err_def)

lemma map_err_length: "map_err f xs = Inr ys \<Longrightarrow> length ys = length xs"
  by (induction xs arbitrary: ys) (auto simp: bind_err_def split: sum.splits)

lemma map_err_list_all2:
  "list_all2 (\<lambda>i p. f i = Inr p) xs ys \<Longrightarrow> map_err f xs = Inr ys"
  by (induction xs ys rule: list_all2_induct) (simp_all add: bind_err_simps)

lemma getitem_update_item: "getitem (PDict (update_item k v kvs)) k = Inr v"
  by (induction kvs) auto

lemma getitem_no_marker:
  "\<not> has_marker obj \<Longrightarrow>
   getitem obj marker = Inl (case obj of PDict kvs \<Rightarrow> KeyError marker | _ \<Rightarrow> TypeError)"
proof (cases obj)
  case (PDict kvs)
  assume "\<not> has_marker obj"
  with PDict have "map_of kvs marker = None"
    by (simp add: map_of_eq_None_iff)
  with PDict show ?thesis by simp
qed simp_all

lemma has_marker_contains_marker: "has_marker v \<Longrightarrow> contains_marker v"
  by (cases v) (force simp: list_ex_iff)+

subsection \<open>Base64 is lossless\<close>

lemma index_of_nth: "distinct xs \<Longrightarrow> n < length xs \<Longrightarrow> index_of (xs ! n) xs = Some n"
proof (induction xs arbitrary: n)
  case Nil
  then show ?case by simp
next
  case (Cons y ys)
  show ?case
  proof (cases n)
    case 0
    then show ?thesis by simp
  next
    case (Suc m)
    with Cons.prems have "ys ! m \<in> set ys" "y \<notin> set ys" by auto
    then have "ys ! m \<noteq> y" by auto
    with Cons Suc show ?thesis by simp
  qed
qed

lemma b64_alphabet_length: "length b64_alphabet = 64"
  by (simp add: b64_alphabet_def)

lemma b64_alphabet_distinct: "distinct b64_alphabet"
  by (simp add: b64_alphabet_def)

lemma b64_pad_not_in_alphabet: "CHR ''='' \<notin> set b64_alphabet"
  by (simp add: b64_alphabet_def)

lemma b64_index_char: "n < 64 \<Longrightarrow> b64_index (b64_char n) = Some n"
  by (simp add: b64_index_def b64_char_def index_of_nth b64_alphabet_distinct
      b64_alphabet_length)

lemma b64_char_not_pad: "n < 64 \<Longrightarrow> b64_char n \<noteq> CHR ''=''"
proof -
  assume "n < 64"
  then have "b64_alphabet ! n \<in> set b64_alphabet"
    by (simp add: b64_alphabet_length)
  with b64_pad_not_in_alphabet show ?thesis
    unfolding b64_char_def by metis
qed

text \<open>The four six-bit values of a group are below 64.\<close>

lemma sextet_a: "(x::nat) < 256 \<Longrightarrow> x div 4 < 64"
  by (simp add: less_mult_imp_div_less)

lemma sextet_b0: "(x::nat) mod 4 * 16 < 64"
proof -
  have "x mod 4 < 4" by simp
  then show ?thesis by linarith
qed

lemma sextet_b: "(y::nat) < 256 \<Longrightarrow> x mod 4 * 16 + y div 16 < 64"
proof -
  assume "y < 256"
  then have "y div 16 < 16" by (simp add: less_mult_imp_div_less)
  moreover have "x mod 4 < 4" by simp
  ultimately show ?thesis by linarith
qed

lemma sextet_c0: "(y::nat) mod 16 * 4 < 64"
proof -
  have "y mod 16 < 16" by simp
  then show ?thesis by linarith
qed

lemma sextet_c: "(z::nat) < 256 \<Longrightarrow> y mod 16 * 4 + z div 64 < 64"
proof -
  assume "z < 256"
  then have "z div 64 < 4" by (simp add: less_mult_imp_div_less)
  moreover have "y mod 16 < 16" by simp
  ultimately show ?thesis by linarith
qed

text \<open>What is left of a byte after the shifts of the decoder.\<close>

lemma octet_hi_16: "(y::nat) < 256 \<Longrightarrow> y div 16 div 16 = 0"
  by simp

lemma octet_lo_16: "(y::nat) < 256 \<Longrightarrow> y div 16 mod 16 = y div 16"
  by (simp add: less_mult_imp_div_less)

lemma octet_hi_64: "(z::nat) < 256 \<Longrightarrow> z div 64 div 4 = 0"
  by simp

lemma octet_lo_64: "(z::nat) < 256 \<Longrightarrow> z div 64 mod 4 = z div 64"
  by (simp add: less_mult_imp_div_less)

lemma b64decode_b64encode: "b64decode (b64encode bs) = Inr bs"
proof (induction bs rule: b64encode.induct)
  case 1
  show ?case by simp
next
  case (2 a)
  have x: "(of_char a :: nat) < 256" by (rule nat_of_char_less_256)
  show ?case
    by (simp add: Let_def b64_index_char b64_char_not_pad sextet_a [OF x] sextet_b0)
next
  case (3 a b)
  have x: "(of_char a :: nat) < 256" and y: "(of_char b :: nat) < 256"
    by (rule nat_of_char_less_256)+
  show ?case
    by (simp add: Let_def b64_index_char b64_char_not_pad sextet_a [OF x] sextet_b [OF y]
        sextet_c0 octet_hi_16 [OF y] octet_lo_16 [OF y])
next
  case (4 a b c r)
  have x: "(of_char a :: nat) < 256" and y: "(of_char b :: nat) < 256"
    and z: "(of_char c :: nat) < 256"
    by (rule nat_of_char_less_256)+
  show ?case
    by (simp add: Let_def b64_index_char b64_char_not_pad bind_err_def "4.IH"
        sextet_a [OF x] sextet_b [OF y] sextet_c [OF z]
        octet_hi_16 [OF y] octet_lo_16 [OF y] octet_hi_64 [OF z] octet_lo_64 [OF z])
qed

subsection \<open>The registry\<close>

lemma get_register: "get (register r T h) S = (if S = T then Some h else get r S)"
  by (simp add: get_def register_def)

lemma get_Registry_init: "get Registry_init S = None"
  by (simp add: get_def Registry_init_def)

lemma get_register_all_None:
  "get (register_all r ps) S = None \<longleftrightarrow> get r S = None \<and> S \<notin> fst ` set ps"
  by (induction ps arbitrary: r) (auto simp: get_register)

lemma get_register_all_Some:
  "(T, h) \<in> set ps \<Longrightarrow> get (register_all r ps) T \<noteq> None"
  using get_register_all_None [of r ps T] by force

text \<open>
  C5. Registering \<open>A\<close> for \<open>T\<close> and then \<open>B\<close> for \<open>T\<close>, with any registrations
  \<open>ps\<close> in between and starting from any registry, makes the lookup of \<open>T\<close> return
  \<open>B\<close>. \<^verbatim>\<open>register\<close> has no failing branch: it is a total function to registries.
\<close>

theorem register_last_write_wins:
  "get (register (register_all (register r T A) ps) T B) T = Some B"
  by (simp add: get_register)

text \<open>
  C6. After any sequence of registrations on a new registry in which a base class
  \<open>T\<close> is registered and a proper subclass \<open>S\<close> of \<open>T\<close> is not, the lookup of \<open>S\<close>
  returns \<^verbatim>\<open>None\<close> while the lookup of \<open>T\<close> returns a handler. The lookup returns an
  optional handler and has no failing branch.
\<close>

theorem get_exact_type_only:
  assumes "issubclass S T" and "S \<noteq> T"
    and "(T, h) \<in> set ps" and "S \<notin> fst ` set ps"
  shows "get (register_all Registry_init ps) S = None
    \<and> get (register_all Registry_init ps) T \<noteq> None"
proof -
  have "get (Registry_init :: 'a Registry) S = None"
    by (simp add: get_def Registry_init_def)
  with assms(4) have "get (register_all Registry_init ps) S = None"
    by (simp add: get_register_all_None)
  moreover have "get (register_all Registry_init ps) T \<noteq> None"
    using assms(3) by (rule get_register_all_Some)
  ultimately show ?thesis by simp
qed

theorem get_exact_type_only_witness:
  "issubclass datetime_datetime datetime_date \<and> datetime_datetime \<noteq> datetime_date
   \<and> get (register_all Registry_init [(datetime_date, DatetimeHandler)]) datetime_datetime = None
   \<and> get (register_all Registry_init [(datetime_date, DatetimeHandler)]) datetime_date \<noteq> None"
proof -
  have s: "issubclass datetime_datetime datetime_date"
    by (simp add: datetime_datetime_def datetime_date_def object_t_def)
  have n: "datetime_datetime \<noteq> datetime_date"
    by (simp add: datetime_datetime_def datetime_date_def)
  have m: "(datetime_date, DatetimeHandler) \<in> set [(datetime_date, DatetimeHandler)]"
    by simp
  have a: "datetime_datetime \<notin> fst ` set [(datetime_date, DatetimeHandler)]"
    using n by simp
  show ?thesis
    using get_exact_type_only [OF s n m a] s n by simp
qed

text \<open>The classes that the module registers when it is loaded.\<close>

lemma registry_defaults:
  "get (registry (2, 7)) datetime_datetime = Some DatetimeHandler"
  "get (registry (2, 7)) datetime_date = Some DatetimeHandler"
  "get (registry (2, 7)) datetime_time = Some DatetimeHandler"
  "get (registry (2, 7)) time_struct_time = Some SimpleReduceHandler"
  "get (registry (2, 7)) datetime_timedelta = Some SimpleReduceHandler"
  "get (registry (2, 7)) collections_OrderedDict = Some SimpleReduceHandler"
  "get (registry (2, 6)) collections_OrderedDict = None"
  by (simp_all add: registry_def get_register get_Registry_init
      datetime_datetime_def datetime_date_def datetime_time_def time_struct_time_def
      datetime_timedelta_def collections_OrderedDict_def)

subsection \<open>The abstract handler\<close>

text \<open>
  C8. The methods \<^verbatim>\<open>flatten\<close> and \<^verbatim>\<open>restore\<close> of \<^verbatim>\<open>BaseHandler\<close>, which a handler
  class that overrides neither inherits, raise \<^verbatim>\<open>NotImplementedError\<close> for every
  argument, whatever the class of the handler: they never return a value, and
  \<^verbatim>\<open>flatten\<close> leaves \<open>data\<close> as it was.
\<close>

theorem BaseHandler_always_raises:
  "fst (BaseHandler_flatten self_class obj data) =
     Inl (NotImplementedError (''You must implement flatten() in '' @ self_class))
   \<and> snd (BaseHandler_flatten self_class obj data) = data
   \<and> BaseHandler_restore self_class v =
     Inl (NotImplementedError (''You must implement restore() in '' @ self_class))
   \<and> (\<forall>y. fst (BaseHandler_flatten self_class obj data) \<noteq> Inr y)
   \<and> (\<forall>y. BaseHandler_restore self_class v \<noteq> Inr y)
   \<and> handler_flatten BaseHandler rt ctx obj data =
       BaseHandler_flatten (class_text BaseHandler) obj data
   \<and> handler_restore BaseHandler rt ctx v = BaseHandler_restore (class_text BaseHandler) v"
  by (simp add: handler_flatten_def handler_restore_def BaseHandler_flatten_def
      BaseHandler_restore_def)

subsection \<open>The lossy mode\<close>

text \<open>
  \<^verbatim>\<open>flatten\<close> in the lossy mode does not return a string for every value: for the
  \<^verbatim>\<open>OrderedDict\<close> that holds an unprintable item, a value of a class of the default
  registrations, the string conversion raises and \<^verbatim>\<open>flatten\<close> raises with it.
\<close>

theorem flatten_lossy_raises:
  "get (registry (2, 7)) collections_OrderedDict = Some SimpleReduceHandler
   \<and> \<not> unpicklable (plain_context False)
   \<and> handler_flatten SimpleReduceHandler unprintable_runtime (plain_context False)
        an_unprintable_OrderedDict (PDict [])
       = (Inl (Raised ''__repr__''), PDict [])"
  by (simp add: registry_def get_register handler_flatten_def SimpleReduceHandler_flatten_def
      unprintable_runtime_def plain_context_def an_unprintable_OrderedDict_def
      bind_err_simps)

text \<open>
  C3. With the flag \<^verbatim>\<open>unpicklable\<close> false, \<^verbatim>\<open>flatten\<close> of either concrete handler
  returns the text that is the string conversion of the value whenever the conversion
  returns, and raises what the conversion raises otherwise. Whatever \<^verbatim>\<open>flatten\<close>
  returns is that text, and the marker key occurs nowhere in it.
\<close>

theorem flatten_lossy_string_or_raises:
  assumes "h = DatetimeHandler \<or> h = SimpleReduceHandler"
    and "\<not> unpicklable ctx"
  shows "(\<forall>s. unicode rt obj = Inr s \<longrightarrow>
            fst (handler_flatten h rt ctx obj data) = Inr (PStr s))
    \<and> (\<forall>e. unicode rt obj = Inl e \<longrightarrow> fst (handler_flatten h rt ctx obj data) = Inl e)
    \<and> (\<forall>v. fst (handler_flatten h rt ctx obj data) = Inr v \<longrightarrow>
            (\<exists>s. v = PStr s \<and> unicode rt obj = Inr s) \<and> \<not> contains_marker v)"
proof -
  have f: "fst (handler_flatten h rt ctx obj data) = bind_err (unicode rt obj) (\<lambda>s. Inr (PStr s))"
    using assms
    by (auto simp: handler_flatten_def DatetimeHandler_flatten_def
        SimpleReduceHandler_flatten_def)
  show ?thesis
    unfolding f by (cases "unicode rt obj") (auto simp: bind_err_simps)
qed

theorem flatten_lossy_string_or_raises_witness:
  "\<not> unpicklable (plain_context False)
   \<and> unicode example_runtime a_datetime = Inr ''datetime.datetime''
   \<and> fst (handler_flatten DatetimeHandler example_runtime (plain_context False) a_datetime
         (PDict [])) = Inr (PStr ''datetime.datetime'')
   \<and> \<not> contains_marker (PStr ''datetime.datetime'')
   \<and> unicode unprintable_runtime an_unprintable_OrderedDict = Inl (Raised ''__repr__'')
   \<and> fst (handler_flatten SimpleReduceHandler unprintable_runtime (plain_context False)
         an_unprintable_OrderedDict (PDict [])) = Inl (Raised ''__repr__'')"
proof -
  have d: "DatetimeHandler = DatetimeHandler \<or> DatetimeHandler = SimpleReduceHandler"
    and r: "SimpleReduceHandler = DatetimeHandler \<or> SimpleReduceHandler = SimpleReduceHandler"
    by simp_all
  have u: "\<not> unpicklable (plain_context False)"
    by (simp add: plain_context_def)
  have s: "unicode example_runtime a_datetime = Inr ''datetime.datetime''"
    by (simp add: example_runtime_def a_datetime_def datetime_datetime_def)
  have e: "unicode unprintable_runtime an_unprintable_OrderedDict = Inl (Raised ''__repr__'')"
    by (simp add: unprintable_runtime_def an_unprintable_OrderedDict_def)
  note T1 = flatten_lossy_string_or_raises [OF d u, of example_runtime a_datetime "PDict []"]
  note T2 = flatten_lossy_string_or_raises [OF r u, of unprintable_runtime
      an_unprintable_OrderedDict "PDict []"]
  from T1 s have a: "fst (handler_flatten DatetimeHandler example_runtime (plain_context False)
      a_datetime (PDict [])) = Inr (PStr ''datetime.datetime'')"
    by blast
  from T1 a have c: "\<not> contains_marker (PStr ''datetime.datetime'')"
    by blast
  from T2 e have b: "fst (handler_flatten SimpleReduceHandler unprintable_runtime
      (plain_context False) an_unprintable_OrderedDict (PDict [])) = Inl (Raised ''__repr__'')"
    by blast
  from u s a c e b show ?thesis by blast
qed

text \<open>
  C10. With the flag \<^verbatim>\<open>unpicklable\<close> false, \<^verbatim>\<open>flatten\<close> of either concrete handler
  leaves the dictionary \<open>data\<close> as it was, and what it returns or raises is what the
  string conversion of the value returns or raises.
\<close>

theorem flatten_lossy_frame:
  assumes "h = DatetimeHandler \<or> h = SimpleReduceHandler"
    and "\<not> unpicklable ctx"
  shows "snd (handler_flatten h rt ctx obj data) = data
    \<and> fst (handler_flatten h rt ctx obj data) = bind_err (unicode rt obj) (\<lambda>s. Inr (PStr s))"
  using assms
  by (auto simp: handler_flatten_def DatetimeHandler_flatten_def
      SimpleReduceHandler_flatten_def)

theorem flatten_lossy_frame_witness:
  "\<not> unpicklable (plain_context False)
   \<and> snd (handler_flatten SimpleReduceHandler example_runtime (plain_context False)
         an_OrderedDict (PDict [(''py/object'', PStr ''collections.OrderedDict'')]))
       = PDict [(''py/object'', PStr ''collections.OrderedDict'')]
   \<and> fst (handler_flatten SimpleReduceHandler example_runtime (plain_context False)
         an_OrderedDict (PDict [(''py/object'', PStr ''collections.OrderedDict'')]))
       = Inr (PStr ''collections.OrderedDict'')"
proof -
  have h: "SimpleReduceHandler = DatetimeHandler \<or> SimpleReduceHandler = SimpleReduceHandler"
    by simp
  have u: "\<not> unpicklable (plain_context False)"
    by (simp add: plain_context_def)
  have s: "bind_err (unicode example_runtime an_OrderedDict) (\<lambda>s. Inr (PStr s))
      = Inr (PStr ''collections.OrderedDict'')"
    by (simp add: example_runtime_def an_OrderedDict_def collections_OrderedDict_def
        bind_err_simps)
  from flatten_lossy_frame [OF h u, of example_runtime an_OrderedDict
      "PDict [(''py/object'', PStr ''collections.OrderedDict'')]"] u s
  show ?thesis by simp
qed

subsection \<open>Restoring\<close>

text \<open>
  C9. \<^verbatim>\<open>restore\<close> of either concrete handler raises on every value without the
  marker key: \<^verbatim>\<open>KeyError\<close> on a dictionary, \<^verbatim>\<open>TypeError\<close> on any other value. It
  never returns a value there.
\<close>

theorem restore_without_marker_raises:
  assumes "h = DatetimeHandler \<or> h = SimpleReduceHandler"
    and "\<not> has_marker obj"
  shows "handler_restore h rt ctx obj =
           Inl (case obj of PDict kvs \<Rightarrow> KeyError marker | _ \<Rightarrow> TypeError)
    \<and> (\<forall>y. handler_restore h rt ctx obj \<noteq> Inr y)"
  using assms
  by (auto simp: handler_restore_def DatetimeHandler_restore_def
      SimpleReduceHandler_restore_def getitem_no_marker bind_err_simps)

theorem restore_without_marker_raises_witness:
  "\<not> has_marker (PDict [(''py/object'', PStr ''datetime.datetime'')])
   \<and> handler_restore DatetimeHandler example_runtime (plain_context True)
        (PDict [(''py/object'', PStr ''datetime.datetime'')]) = Inl (KeyError marker)
   \<and> \<not> has_marker (PList [])
   \<and> handler_restore SimpleReduceHandler example_runtime (plain_context True) (PList [])
       = Inl TypeError"
proof -
  have d: "DatetimeHandler = DatetimeHandler \<or> DatetimeHandler = SimpleReduceHandler"
    and s: "SimpleReduceHandler = DatetimeHandler \<or> SimpleReduceHandler = SimpleReduceHandler"
    by simp_all
  have a: "\<not> has_marker (PDict [(''py/object'', PStr ''datetime.datetime'')])"
    by (simp add: marker_def)
  have b: "\<not> has_marker (PList [])"
    by simp
  from restore_without_marker_raises [OF d a, of example_runtime "plain_context True"]
    restore_without_marker_raises [OF s b, of example_runtime "plain_context True"] a b
  show ?thesis by simp
qed

text \<open>
  C7. Let the marker of a dictionary hold a pair or a list of a flattened factory and
  a list of arguments, the first of them the base64 text of the bytes \<open>bs\<close>, as a byte
  string or as text. When the context restores the factory to \<open>cls\<close> and the remaining
  arguments, one by one, to \<open>params\<close>, \<^verbatim>\<open>DatetimeHandler.restore\<close> returns what
  \<^verbatim>\<open>cls.__new__\<close> returns on \<open>cls\<close>, the decoded \<open>bs\<close> and then \<open>params\<close> in
  their order. This holds in every runtime, so the call of the class, which would run
  its constructor, has no part in it: where the call differs from \<^verbatim>\<open>cls.__new__\<close> on
  these arguments, the result is not that of the call.
\<close>

theorem DatetimeHandler_restore_calls_new:
  assumes "map_of kvs marker = Some m"
    and "m = PTuple [c, PList (a0 # rest)] \<or> m = PList [c, PList (a0 # rest)]"
    and "a0 = PBytes enc \<or> a0 = PStr enc"
    and "b64decode enc = Inr bs"
    and "restore ctx c False = Inr cls"
    and "list_all2 (\<lambda>i p. restore ctx i False = Inr p) rest params"
  shows "DatetimeHandler_restore rt ctx (PDict kvs) = new rt cls (PBytes bs # params)
    \<and> (call rt cls (PBytes bs # params) \<noteq> new rt cls (PBytes bs # params) \<longrightarrow>
        DatetimeHandler_restore rt ctx (PDict kvs) \<noteq> call rt cls (PBytes bs # params))"
proof -
  have r: "map_err (\<lambda>i. restore ctx i False) rest = Inr params"
    using assms(6) by (rule map_err_list_all2)
  have u: "unpack2 m = Inr (c, PList (a0 # rest))"
    using assms(2) by (auto simp: unpack2_def bind_err_simps)
  have d: "py_b64decode a0 = Inr (PBytes bs)"
    using assms(3,4) by (auto simp: bind_err_simps)
  have "DatetimeHandler_restore rt ctx (PDict kvs) = new rt cls (PBytes bs # params)"
    using assms(1,5) r u d
    by (simp add: DatetimeHandler_restore_def bind_err_simps)
  then show ?thesis by simp
qed

theorem DatetimeHandler_restore_calls_new_witness:
  "map_of a_datetime_utc_document marker =
     Some (PList [PDict [(''py/type'', PStr ''datetime.datetime'')],
                  PList [PStr ''B+cAAQEAAAAA/w=='',
                         PDict [(''py/object'', PStr ''datetime.timezone''),
                                (''py/state'', PNone)]]])
   \<and> b64decode ''B+cAAQEAAAAA/w=='' =
       Inr [CHR 0x07, CHR 0xE7, CHR 0x00, CHR 0x01, CHR 0x01, CHR 0x00, CHR 0x00, CHR 0x00,
            CHR 0x00, CHR 0xFF]
   \<and> restore (tagged_context True) (PDict [(''py/type'', PStr ''datetime.datetime'')]) False
       = Inr (PClass datetime_datetime)
   \<and> restore (tagged_context True)
        (PDict [(''py/object'', PStr ''datetime.timezone''), (''py/state'', PNone)]) False
       = Inr utc
   \<and> DatetimeHandler_restore validating_runtime (tagged_context True)
        (PDict a_datetime_utc_document)
       = new validating_runtime (PClass datetime_datetime)
           [PBytes [CHR 0x07, CHR 0xE7, CHR 0x00, CHR 0x01, CHR 0x01, CHR 0x00, CHR 0x00,
                    CHR 0x00, CHR 0x00, CHR 0xFF], utc]
   \<and> DatetimeHandler_restore validating_runtime (tagged_context True)
        (PDict a_datetime_utc_document) = Inr a_datetime_utc
   \<and> call validating_runtime (PClass datetime_datetime)
        [PBytes [CHR 0x07, CHR 0xE7, CHR 0x00, CHR 0x01, CHR 0x01, CHR 0x00, CHR 0x00,
                 CHR 0x00, CHR 0x00, CHR 0xFF], utc] = Inl TypeError
   \<and> DatetimeHandler_restore validating_runtime (tagged_context True)
        (PDict a_datetime_utc_document)
       \<noteq> call validating_runtime (PClass datetime_datetime)
           [PBytes [CHR 0x07, CHR 0xE7, CHR 0x00, CHR 0x01, CHR 0x01, CHR 0x00, CHR 0x00,
                    CHR 0x00, CHR 0x00, CHR 0xFF], utc]"
proof -
  let ?bs = "[CHR 0x07, CHR 0xE7, CHR 0x00, CHR 0x01, CHR 0x01, CHR 0x00, CHR 0x00, CHR 0x00,
    CHR 0x00, CHR 0xFF]"
  let ?c = "PDict [(''py/type'', PStr ''datetime.datetime'')]"
  let ?tz = "PDict [(''py/object'', PStr ''datetime.timezone''), (''py/state'', PNone)]"
  let ?a0 = "PStr ''B+cAAQEAAAAA/w==''"
  let ?m = "PList [?c, PList [?a0, ?tz]]"
  have g: "map_of a_datetime_utc_document marker = Some ?m"
    by (simp add: a_datetime_utc_document_def marker_def)
  have m: "?m = PTuple [?c, PList (?a0 # [?tz])] \<or> ?m = PList [?c, PList (?a0 # [?tz])]"
    by simp
  have a: "?a0 = PBytes ''B+cAAQEAAAAA/w=='' \<or> ?a0 = PStr ''B+cAAQEAAAAA/w==''"
    by simp
  have e: "b64decode ''B+cAAQEAAAAA/w=='' = Inr ?bs"
    by code_simp
  have c: "restore (tagged_context True) ?c False = Inr (PClass datetime_datetime)"
    by (simp add: tagged_context_def type_named_def known_types_def bind_err_simps
        datetime_datetime_def)
  have t: "restore (tagged_context True) ?tz False = Inr utc"
    by (simp add: tagged_context_def type_named_def known_types_def bind_err_simps utc_def
        datetime_datetime_def datetime_date_def datetime_time_def datetime_timedelta_def
        datetime_timezone_def)
  have r: "list_all2 (\<lambda>i p. restore (tagged_context True) i False = Inr p) [?tz] [utc]"
    using t by simp
  note T = DatetimeHandler_restore_calls_new [OF g m a e c r, of validating_runtime]
  have n: "new validating_runtime (PClass datetime_datetime) [PBytes ?bs, utc]
      = Inr a_datetime_utc"
    by (simp add: validating_runtime_def example_runtime_def a_datetime_utc_def)
  have k: "call validating_runtime (PClass datetime_datetime) [PBytes ?bs, utc] = Inl TypeError"
    by (simp add: validating_runtime_def)
  from g e c t T n k show ?thesis by simp
qed

subsection \<open>Flattening and restoring\<close>

text \<open>
  What \<^verbatim>\<open>DatetimeHandler.flatten\<close> writes for a value that decomposes into a class
  and arguments starting with a byte string, and what \<^verbatim>\<open>DatetimeHandler.restore\<close>
  makes of it.
\<close>

lemma DatetimeHandler_flatten_restore:
  assumes "unpicklable pickler"
    and "reduce rt obj = Inr (PTuple [cls, PTuple (PBytes bs # rest)])"
    and "map_err (\<lambda>i. flatten pickler i False) rest = Inr frest"
    and "flatten pickler cls False = Inr fcls"
    and "d = PDict (update_item marker (PTuple [fcls, PList (PBytes (b64encode bs) # frest)]) kvs)"
  shows "DatetimeHandler_flatten rt pickler obj (PDict kvs) = (Inr d, d)"
    and "getitem d marker = Inr (PTuple [fcls, PList (PBytes (b64encode bs) # frest)])"
    and "DatetimeHandler_restore rt' unpickler d =
        bind_err (restore unpickler fcls False) (\<lambda>c.
        bind_err (map_err (\<lambda>i. restore unpickler i False) frest) (\<lambda>ps.
        new rt' c (PBytes bs # ps)))"
proof -
  show "DatetimeHandler_flatten rt pickler obj (PDict kvs) = (Inr d, d)"
    using assms
    by (simp add: DatetimeHandler_flatten_def unpack2_def bind_err_simps)
  show g: "getitem d marker = Inr (PTuple [fcls, PList (PBytes (b64encode bs) # frest)])"
    unfolding assms(5) by (rule getitem_update_item)
  show "DatetimeHandler_restore rt' unpickler d =
        bind_err (restore unpickler fcls False) (\<lambda>c.
        bind_err (map_err (\<lambda>i. restore unpickler i False) frest) (\<lambda>ps.
        new rt' c (PBytes bs # ps)))"
    by (simp add: DatetimeHandler_restore_def g unpack2_def bind_err_simps
        b64decode_b64encode)
qed

text \<open>
  C2. For a value whose decomposition is a class and arguments that start with the
  byte string \<open>bs\<close>, any bytes at all, \<^verbatim>\<open>DatetimeHandler.flatten\<close> in unpicklable
  mode stores under the marker key the flattened class and the list that starts with
  the base64 encoding of \<open>bs\<close>; \<^verbatim>\<open>DatetimeHandler.restore\<close> on the result passes
  exactly \<open>bs\<close> as the first argument of \<^verbatim>\<open>cls.__new__\<close>.
\<close>

theorem DatetimeHandler_payload_fidelity:
  assumes "unpicklable pickler"
    and "reduce rt obj = Inr (PTuple [cls, PTuple (PBytes bs # rest)])"
    and "map_err (\<lambda>i. flatten pickler i False) rest = Inr frest"
    and "flatten pickler cls False = Inr fcls"
    and "d = PDict (update_item marker (PTuple [fcls, PList (PBytes (b64encode bs) # frest)]) kvs)"
  shows "DatetimeHandler_flatten rt pickler obj (PDict kvs) = (Inr d, d)
    \<and> getitem d marker = Inr (PTuple [fcls, PList (PBytes (b64encode bs) # frest)])
    \<and> b64decode (b64encode bs) = Inr bs
    \<and> DatetimeHandler_restore rt' unpickler d =
        bind_err (restore unpickler fcls False) (\<lambda>c.
        bind_err (map_err (\<lambda>i. restore unpickler i False) frest) (\<lambda>ps.
        new rt' c (PBytes bs # ps)))"
  using DatetimeHandler_flatten_restore [OF assms] b64decode_b64encode [of bs]
  by simp

theorem DatetimeHandler_payload_fidelity_witness:
  "unpicklable (plain_context True)
   \<and> DatetimeHandler_flatten example_runtime (plain_context True) a_datetime (PDict []) =
       (Inr (PDict [(marker, PTuple [PClass datetime_datetime, PList [PBytes ''B+cAAQEAAAAA/w=='']])]),
        PDict [(marker, PTuple [PClass datetime_datetime, PList [PBytes ''B+cAAQEAAAAA/w=='']])])
   \<and> DatetimeHandler_restore example_runtime (plain_context True)
        (PDict [(marker, PTuple [PClass datetime_datetime, PList [PBytes ''B+cAAQEAAAAA/w=='']])])
       = Inr a_datetime"
proof -
  let ?bs = "[CHR 0x07, CHR 0xE7, CHR 0x00, CHR 0x01, CHR 0x01, CHR 0x00, CHR 0x00, CHR 0x00,
    CHR 0x00, CHR 0xFF]"
  let ?d = "PDict [(marker, PTuple [PClass datetime_datetime, PList [PBytes ''B+cAAQEAAAAA/w=='']])]"
  have u: "unpicklable (plain_context True)"
    by (simp add: plain_context_def)
  have r: "reduce example_runtime a_datetime =
      Inr (PTuple [PClass datetime_datetime, PTuple (PBytes ?bs # [])])"
    by (simp add: example_runtime_def a_datetime_def)
  have m: "map_err (\<lambda>i. flatten (plain_context True) i False) [] = Inr []"
    by simp
  have c: "flatten (plain_context True) (PClass datetime_datetime) False = Inr (PClass datetime_datetime)"
    by (simp add: plain_context_def)
  have e: "b64encode ?bs = ''B+cAAQEAAAAA/w==''"
    by code_simp
  have d: "?d = PDict (update_item marker
      (PTuple [PClass datetime_datetime, PList (PBytes (b64encode ?bs) # [])]) [])"
    by (simp only: e update_item.simps)
  note T = DatetimeHandler_payload_fidelity [OF u r m c d, of example_runtime "plain_context True"]
  from T have f: "DatetimeHandler_flatten example_runtime (plain_context True) a_datetime (PDict [])
      = (Inr ?d, ?d)"
    by (rule conjunct1)
  from T have g: "DatetimeHandler_restore example_runtime (plain_context True) ?d =
      bind_err (restore (plain_context True) (PClass datetime_datetime) False) (\<lambda>c.
      bind_err (map_err (\<lambda>i. restore (plain_context True) i False) []) (\<lambda>ps.
      new example_runtime c (PBytes ?bs # ps)))"
    by (elim conjE)
  have v: "bind_err (restore (plain_context True) (PClass datetime_datetime) False) (\<lambda>c.
      bind_err (map_err (\<lambda>i. restore (plain_context True) i False) []) (\<lambda>ps.
      new example_runtime c (PBytes ?bs # ps))) = Inr a_datetime"
    by (simp add: bind_err_simps plain_context_def example_runtime_def a_datetime_def)
  from u f g v show ?thesis by simp
qed

text \<open>
  The round trip of \<^verbatim>\<open>DatetimeHandler\<close>: when the context restores the class and
  the remaining arguments from what it flattened them to, and \<^verbatim>\<open>cls.__new__\<close> on the
  components of the decomposition gives the value back, restoring the flattened value
  returns the value.
\<close>

lemma DatetimeHandler_roundtrip:
  assumes "unpicklable pickler"
    and "reduce rt obj = Inr (PTuple [cls, PTuple (PBytes bs # rest)])"
    and "map_err (\<lambda>i. flatten pickler i False) rest = Inr frest"
    and "flatten pickler cls False = Inr fcls"
    and "restore unpickler fcls False = Inr cls"
    and "map_err (\<lambda>i. restore unpickler i False) frest = Inr rest"
    and "new rt cls (PBytes bs # rest) = Inr obj"
  shows "\<exists>d. DatetimeHandler_flatten rt pickler obj (PDict kvs) = (Inr d, d)
    \<and> DatetimeHandler_restore rt unpickler d = Inr obj"
proof -
  let ?d = "PDict (update_item marker (PTuple [fcls, PList (PBytes (b64encode bs) # frest)]) kvs)"
  have "DatetimeHandler_flatten rt pickler obj (PDict kvs) = (Inr ?d, ?d)"
    by (rule DatetimeHandler_flatten_restore(1) [OF assms(1-4) refl])
  moreover have "DatetimeHandler_restore rt unpickler ?d = Inr obj"
    using assms(5-7)
    by (simp add: DatetimeHandler_flatten_restore(3) [OF assms(1-4) refl] bind_err_simps)
  ultimately show ?thesis by blast
qed

text \<open>
  The round trip of \<^verbatim>\<open>SimpleReduceHandler\<close> for a decomposition of exactly a
  factory and its arguments, under the same conditions on the context and with the
  call \<^verbatim>\<open>factory(*args)\<close> giving the value back.
\<close>

lemma SimpleReduceHandler_roundtrip:
  assumes "unpicklable pickler"
    and "reduce rt obj = Inr (PTuple [factory, args])"
    and "map_err (\<lambda>i. flatten pickler i False) [factory, args] = Inr fs"
    and "map_err (\<lambda>i. restore unpickler i False) fs = Inr [factory, args]"
    and "bind_err (iterate args) (call rt factory) = Inr obj"
  shows "\<exists>d. SimpleReduceHandler_flatten rt pickler obj (PDict kvs) = (Inr d, d)
    \<and> SimpleReduceHandler_restore rt unpickler d = Inr obj"
proof -
  let ?d = "PDict (update_item marker (PList fs) kvs)"
  have "SimpleReduceHandler_flatten rt pickler obj (PDict kvs) = (Inr ?d, ?d)"
    using assms(1-3)
    by (simp add: SimpleReduceHandler_flatten_def bind_err_simps)
  moreover have "SimpleReduceHandler_restore rt unpickler ?d = Inr obj"
    using assms(4,5)
    by (simp add: SimpleReduceHandler_restore_def getitem_update_item bind_err_simps
        del: getitem.simps)
  ultimately show ?thesis by blast
qed

subsection \<open>What is stored under the marker key\<close>

text \<open>
  \<^verbatim>\<open>DatetimeHandler.flatten\<close> stores a pair of the flattened class and a list that
  is not empty. \<^verbatim>\<open>SimpleReduceHandler.flatten\<close> stores one element for each
  component of the decomposition, however many there are, while
  \<^verbatim>\<open>SimpleReduceHandler.restore\<close> raises \<^verbatim>\<open>ValueError\<close> unless there are two.
\<close>

lemma DatetimeHandler_flatten_marker_shape:
  assumes "unpicklable pickler"
    and "DatetimeHandler_flatten rt pickler obj data = (Inr d, d')"
  shows "\<exists>f enc frs. getitem d marker = Inr (PTuple [f, PList (enc # frs)]) \<and> d' = d"
  using assms
  by (auto simp: DatetimeHandler_flatten_def bind_err_def getitem_update_item
      simp del: getitem.simps
      split: sum.splits prod.splits elim!: setitem.elims)

lemma SimpleReduceHandler_flatten_marker_shape:
  assumes "unpicklable pickler"
    and "SimpleReduceHandler_flatten rt pickler obj data = (Inr d, d')"
  shows "\<exists>r xs fs. reduce rt obj = Inr r \<and> iterate r = Inr xs
    \<and> map_err (\<lambda>i. flatten pickler i False) xs = Inr fs
    \<and> getitem d marker = Inr (PList fs) \<and> d' = d"
  using assms
  by (auto simp: SimpleReduceHandler_flatten_def bind_err_def getitem_update_item
      simp del: getitem.simps
      split: sum.splits prod.splits elim!: setitem.elims)

lemma SimpleReduceHandler_restore_needs_two:
  assumes "getitem d marker = Inr m" and "iterate m = Inr xs"
    and "map_err (\<lambda>i. restore unpickler i False) xs = Inr ys"
    and "length xs \<noteq> 2"
  shows "SimpleReduceHandler_restore rt unpickler d = Inl ValueError"
proof -
  from assms(3,4) have "length ys \<noteq> 2"
    by (simp add: map_err_length)
  then have "(case ys of [factory, args] \<Rightarrow> bind_err (iterate args) (call rt factory)
      | _ \<Rightarrow> Inl ValueError) = Inl ValueError"
    by (auto split: list.splits)
  with assms(1-3) show ?thesis
    by (simp add: SimpleReduceHandler_restore_def bind_err_simps)
qed

text \<open>
  C4. The value under the marker key does not always have two elements: for the
  \<^verbatim>\<open>OrderedDict\<close> that carries an attribute, whose decomposition has three
  components, \<^verbatim>\<open>SimpleReduceHandler.flatten\<close> in unpicklable mode returns without an
  error and has stored a list of three elements: the class, the arguments and the
  dictionary of attributes.
\<close>

theorem SimpleReduceHandler_flatten_three_components:
  "handler_flatten SimpleReduceHandler example_runtime (plain_context True) an_OrderedDict (PDict [])
     = (Inr an_OrderedDict_flat, an_OrderedDict_flat)
   \<and> getitem an_OrderedDict_flat marker =
       Inr (PList [PClass collections_OrderedDict,
                   PTuple [PList [PList [PStr ''a'', PInt 1]]],
                   PDict [(''x'', PInt 5)]])"
  by (simp add: handler_flatten_def SimpleReduceHandler_flatten_def example_runtime_def
      plain_context_def an_OrderedDict_def an_OrderedDict_flat_def bind_err_simps)

text \<open>
  C1. The round trip does not hold for every value of a class of the default
  registrations: \<^verbatim>\<open>OrderedDict\<close> is bound to \<^verbatim>\<open>SimpleReduceHandler\<close>, the
  \<^verbatim>\<open>OrderedDict\<close> that carries an attribute is flattened in unpicklable mode
  without an error, and restoring the result raises \<^verbatim>\<open>ValueError\<close> instead of
  returning the value.
\<close>

theorem SimpleReduceHandler_roundtrip_fails:
  "get (registry (2, 7)) collections_OrderedDict = Some SimpleReduceHandler
   \<and> fst (handler_flatten SimpleReduceHandler example_runtime (plain_context True)
         an_OrderedDict (PDict [])) = Inr an_OrderedDict_flat
   \<and> handler_restore SimpleReduceHandler example_runtime (plain_context True)
        an_OrderedDict_flat = Inl ValueError"
  by (simp add: registry_def get_register handler_flatten_def SimpleReduceHandler_flatten_def
      handler_restore_def SimpleReduceHandler_restore_def example_runtime_def
      plain_context_def an_OrderedDict_def an_OrderedDict_flat_def bind_err_simps)

end
